theory Spec2Isabelle
  imports Main "HOL-Library.Sublist" "HOL-Library.Word"
begin

section \<open>Comments (runtime/ast/comments.go)\<close>

type_synonym byte = "8 word"

text \<open>Go's conversion \<^verbatim>\<open>[]byte("...")\<close> of an ASCII string literal.\<close>

definition bytes :: "string \<Rightarrow> byte list" where
  "bytes s = map (\<lambda>c. of_nat (of_char c)) s"

text \<open>
  \<^verbatim>\<open>bytes.HasPrefix(s, prefix)\<close> of the Go standard library:
  \<^verbatim>\<open>len(s) >= len(prefix) && Equal(s[:len(prefix)], prefix)\<close>.
\<close>

definition HasPrefix :: "byte list \<Rightarrow> byte list \<Rightarrow> bool" where
  "HasPrefix s p = (length s \<ge> length p \<and> take (length p) s = p)"

record Comment =
  source :: "byte list"

definition blockCommentDocStringPrefix :: "byte list" where
  "blockCommentDocStringPrefix = bytes ''/**''"

definition blockCommentStringPrefix :: "byte list" where
  "blockCommentStringPrefix = bytes ''/*''"

definition lineCommentDocStringPrefix :: "byte list" where
  "lineCommentDocStringPrefix = bytes ''///''"

definition lineCommentStringPrefix :: "byte list" where
  "lineCommentStringPrefix = bytes ''//''"

definition Multiline :: "Comment \<Rightarrow> bool" where
  "Multiline c = HasPrefix (source c) blockCommentStringPrefix"

definition Doc :: "Comment \<Rightarrow> bool" where
  "Doc c = (if Multiline c
            then HasPrefix (source c) blockCommentDocStringPrefix
            else HasPrefix (source c) lineCommentDocStringPrefix)"

section \<open>Static types and values (runtime/interpreter)\<close>

text \<open>
  The declarations of the static types and of the values other than the path capability
  live in files of the interpreter package outside the ones verified here. They are
  modelled by their shape: a path domain is one of the named domains (every other raw
  value behaves as \<open>PathDomainUnknown\<close>), a primitive static type is one of the kinds the
  migration names or any other kind, identified by its raw value.
\<close>

datatype PathDomain =
  PathDomainUnknown | PathDomainStorage | PathDomainPrivate | PathDomainPublic

datatype PrimitiveStaticType =
  PrimitiveStaticTypeBool
  | PrimitiveStaticTypeVoid
  | PrimitiveStaticTypeAddress
  | PrimitiveStaticTypeMetaType
  | PrimitiveStaticTypeBlock
  | PrimitiveStaticTypeString
  | PrimitiveStaticTypeCharacter
  | PrimitiveStaticTypeCapability
  | PrimitiveStaticTypeOther nat

datatype Authorization =
  UnauthorizedAccess
  | EntitlementSetAuthorization "string list"
  | EntitlementMapAuthorization string

datatype StaticType =
  PrimitiveStaticTypeT PrimitiveStaticType
  | OptionalStaticType StaticType
  | VariableSizedStaticType StaticType
  | ConstantSizedStaticType StaticType int
  | DictionaryStaticType StaticType StaticType
  | CapabilityStaticType "StaticType option"
  | ReferenceStaticTypeT Authorization StaticType
  | CompositeStaticType string
  | InterfaceStaticType string
  | IntersectionStaticType "string list"

text \<open>A non-nil \<^verbatim>\<open>*ReferenceStaticType\<close>.\<close>

record ReferenceStaticType =
  Authorization :: Authorization
  ReferencedType :: StaticType

text \<open>Storing a \<^verbatim>\<open>*ReferenceStaticType\<close> in a variable of interface type \<^verbatim>\<open>StaticType\<close>.\<close>

definition asStaticType :: "ReferenceStaticType \<Rightarrow> StaticType" where
  "asStaticType r = ReferenceStaticTypeT (Authorization r) (ReferencedType r)"

text \<open>
  The type assertion \<^verbatim>\<open>t.(*ReferenceStaticType)\<close> on an interface value that may be
  nil: \<open>None\<close> is the failed assertion.
\<close>

fun assertReferenceStaticType :: "StaticType option \<Rightarrow> ReferenceStaticType option" where
  "assertReferenceStaticType (Some (ReferenceStaticTypeT a t)) =
     Some \<lparr>Authorization = a, ReferencedType = t\<rparr>"
| "assertReferenceStaticType _ = None"

type_synonym Address = "64 word"
type_synonym AddressValue = "64 word"
type_synonym UInt64Value = "64 word"
type_synonym TypeID = string

record PathValue =
  Domain :: PathDomain
  Identifier :: string

record AddressPath =
  Address :: Address
  AddressPath_Path :: PathValue

record StorageKey =
  Key :: string
  StorageKey_Address :: Address

text \<open>The deprecated path capability: the borrow type is optional (a nil interface).\<close>

record PathCapabilityValue =
  BorrowType :: "StaticType option"
  Path :: PathValue
  address :: AddressValue

text \<open>
  Modelled from the spec: the id capability \<open>{address, capability-id: u64, borrow-type}\<close>;
  its declaration and \<^verbatim>\<open>NewUnmeteredCapabilityValue\<close> are outside the files at hand.
\<close>

record IDCapabilityValue =
  ID_BorrowType :: StaticType
  ID_address :: AddressValue
  ID :: UInt64Value

definition NewUnmeteredCapabilityValue ::
  "UInt64Value \<Rightarrow> AddressValue \<Rightarrow> StaticType \<Rightarrow> IDCapabilityValue" where
  "NewUnmeteredCapabilityValue capabilityID addr borrowType =
     \<lparr>ID_BorrowType = borrowType, ID_address = addr, ID = capabilityID\<rparr>"

datatype Value =
  NilValue
  | BoolValue bool
  | UInt64ValueV UInt64Value
  | StringValue string
  | AddressValueV AddressValue
  | PathValueV PathValue
  | TypeValue "StaticType option"
  | SomeValue Value
  | ArrayValue StaticType "Value list"
  | PathCapabilityValueV PathCapabilityValue
  | IDCapabilityValueV IDCapabilityValue




datatype panic = UnexpectedError string | UnreachableError

section \<open>The deprecated path capability (runtime/interpreter/value\_pathcapability.go)\<close>

definition NewUnmeteredPathCapabilityValue ::
  "StaticType option \<Rightarrow> AddressValue \<Rightarrow> PathValue \<Rightarrow> PathCapabilityValue" where
  "NewUnmeteredPathCapabilityValue borrowType addr path =
     \<lparr>BorrowType = borrowType, Path = path, address = addr\<rparr>"

definition PathCapabilityValue_AddressPath :: "PathCapabilityValue \<Rightarrow> AddressPath" where
  "PathCapabilityValue_AddressPath v = \<lparr>Address = address v, AddressPath_Path = Path v\<rparr>"

subsection \<open>Equality\<close>

text \<open>
  Modelled from the spec: the \<^verbatim>\<open>Equal\<close> methods of static types, addresses and paths
  are outside the files at hand. Each asserts that the other operand is of its own kind
  (a nil or foreign operand is unequal) and then compares structurally.
\<close>

definition StaticType_Equal :: "StaticType \<Rightarrow> StaticType option \<Rightarrow> bool" where
  "StaticType_Equal t other = (case other of None \<Rightarrow> False | Some u \<Rightarrow> t = u)"

definition AddressValue_Equal :: "AddressValue \<Rightarrow> Value \<Rightarrow> bool" where
  "AddressValue_Equal a other =
     (case other of AddressValueV b \<Rightarrow> a = b | _ \<Rightarrow> False)"

definition PathValue_Equal :: "PathValue \<Rightarrow> Value \<Rightarrow> bool" where
  "PathValue_Equal p other =
     (case other of
        PathValueV q \<Rightarrow> Identifier q = Identifier p \<and> Domain q = Domain p
      | _ \<Rightarrow> False)"

definition Equal :: "PathCapabilityValue \<Rightarrow> Value \<Rightarrow> bool" where
  "Equal v other =
     (case other of
        PathCapabilityValueV otherCapability \<Rightarrow>
          (case BorrowType v of
             None \<Rightarrow>
               if BorrowType otherCapability \<noteq> None then False
               else AddressValue_Equal (address otherCapability) (AddressValueV (address v)) \<and>
                    PathValue_Equal (Path otherCapability) (PathValueV (Path v))
           | Some t \<Rightarrow>
               if \<not> StaticType_Equal t (BorrowType otherCapability) then False
               else AddressValue_Equal (address otherCapability) (AddressValueV (address v)) \<and>
                    PathValue_Equal (Path otherCapability) (PathValueV (Path v)))
      | _ \<Rightarrow> False)"

subsection \<open>Encoding\<close>

text \<open>
  The encoder is the stream of bytes written so far. An encoding step returns the stream
  and the error, if any; what was written before a failure stays written.
  \<^verbatim>\<open>EncodeRawBytes\<close> and \<^verbatim>\<open>EncodeNil\<close> belong to the CBOR library: the first
  appends the bytes as they are, the second the one-byte CBOR nil \<open>0xf6\<close>.
\<close>

type_synonym Encoder = "byte list"

datatype EncodeError = EncodeError string

definition EncodeRawBytes :: "Encoder \<Rightarrow> byte list \<Rightarrow> Encoder \<times> EncodeError option" where
  "EncodeRawBytes e bs = (e @ bs, None)"

definition EncodeNil :: "Encoder \<Rightarrow> Encoder \<times> EncodeError option" where
  "EncodeNil e = (e @ [0xf6], None)"

text \<open>
  The encoders of the address, the path and the static type are methods defined outside
  the files at hand: each is a parameter that yields the bytes it appends and its error.
\<close>

type_synonym 'a encoding = "'a \<Rightarrow> byte list \<times> EncodeError option"

definition encodeWith :: "'a encoding \<Rightarrow> 'a \<Rightarrow> Encoder \<Rightarrow> Encoder \<times> EncodeError option" where
  "encodeWith enc x e = (e @ fst (enc x), snd (enc x))"

definition encodedPathCapabilityValueLength :: nat where
  "encodedPathCapabilityValueLength = 3"

text \<open>\<open>tag\<close> is the constant \<^verbatim>\<open>CBORTagPathCapabilityValue\<close>, declared elsewhere.\<close>

definition Encode ::
  "byte \<Rightarrow> AddressValue encoding \<Rightarrow> PathValue encoding \<Rightarrow> StaticType encoding \<Rightarrow>
   PathCapabilityValue \<Rightarrow> Encoder \<Rightarrow> Encoder \<times> EncodeError option" where
  "Encode tag encAddress encPath encStaticType v e =
     (case EncodeRawBytes e [0xd8, tag, 0x83] of
        (e1, Some err) \<Rightarrow> (e1, Some err)
      | (e1, None) \<Rightarrow>
     (case encodeWith encAddress (address v) e1 of
        (e2, Some err) \<Rightarrow> (e2, Some err)
      | (e2, None) \<Rightarrow>
     (case encodeWith encPath (Path v) e2 of
        (e3, Some err) \<Rightarrow> (e3, Some err)
      | (e3, None) \<Rightarrow>
     (case BorrowType v of
        None \<Rightarrow> EncodeNil e3
      | Some t \<Rightarrow> encodeWith encStaticType t e3))))"

subsection \<open>Members\<close>

text \<open>
  Modelled from the spec: the semantic reference type and the function types of the two
  capability members are declared in the \<^verbatim>\<open>sema\<close> package, outside the files at hand.
\<close>

datatype SemaType =
  SemaPrimitive string
  | SemaComposite string "string list"
  | SemaIntersection "string list"
  | SemaOptional SemaType
  | SemaReference Authorization SemaType
  | SemaNever

















section \<open>The capability migration (migrations/capcons/capabilitymigration.go)\<close>

text \<open>
  A call of a reporter method is recorded as a value; the reporter is the list of the
  calls it has received so far, and \<open>None\<close> is the nil reporter.
\<close>

datatype Report =
  MigratedPathCapability Address AddressPath ReferenceStaticType UInt64Value
  | MissingCapabilityID Address AddressPath
  | MissingBorrowType Address AddressPath

type_synonym CapabilityMigrationReporter = "Report list"

text \<open>
  Modelled from the spec: the three side tables built by the link migration,
  \<open>private/public-path \<rightarrow> (id, borrow-type)\<close>,
  \<open>(storage-path, borrow-type-id) \<rightarrow> id\<close> and
  \<open>storage-path \<rightarrow> (id, borrow-type)\<close>. Their types and their \<^verbatim>\<open>Get\<close> methods
  are outside the files at hand; \<^verbatim>\<open>Get\<close> is the lookup, \<open>None\<close> standing for
  \<^verbatim>\<open>ok = false\<close>, and the borrow type of an entry is a reference static type.
\<close>

type_synonym PathCapabilityMapping = "AddressPath \<Rightarrow> (UInt64Value \<times> ReferenceStaticType) option"
type_synonym PathTypeCapabilityMapping = "AddressPath \<times> TypeID \<Rightarrow> UInt64Value option"

record CapabilityValueMigration =
  PrivatePublicCapabilityMapping :: PathCapabilityMapping
  StorageCapabilityMapping :: PathTypeCapabilityMapping
  StorageCapabilityWithoutTypeMapping :: PathCapabilityMapping
  Reporter :: "CapabilityMigrationReporter option"

text \<open>
  The outcome of a call: the reporter after the call, and either a panic or the pair
  \<^verbatim>\<open>(interpreter.Value, error)\<close> the function returns, each of which may be nil.
\<close>

datatype MigrationError = MigrationError string

type_synonym MigrateResult =
  "CapabilityMigrationReporter option \<times> (panic + Value option \<times> MigrationError option)"

definition report ::
  "CapabilityMigrationReporter option \<Rightarrow> Report \<Rightarrow> CapabilityMigrationReporter option" where
  "report reporter r = (case reporter of None \<Rightarrow> None | Some calls \<Rightarrow> Some (calls @ [r]))"

text \<open>
  Lines 160 to 180 of the source: the assertion that the borrow type is a reference
  static type, the construction of the id capability and the report.
\<close>

definition newCapabilityFor ::
  "CapabilityMigrationReporter option \<Rightarrow> PathCapabilityValue \<Rightarrow> StorageKey \<Rightarrow> UInt64Value \<Rightarrow>
   StaticType option \<Rightarrow> MigrateResult" where
  "newCapabilityFor reporter oldCapability storageKey capabilityID oldBorrowType =
     (case assertReferenceStaticType oldBorrowType of
        None \<Rightarrow> (reporter, Inl (UnexpectedError ''unexpected non-reference borrow type''))
      | Some newBorrowType \<Rightarrow>
          (report reporter
             (MigratedPathCapability (StorageKey_Address storageKey)
                (PathCapabilityValue_AddressPath oldCapability) newBorrowType capabilityID),
           Inr (Some (IDCapabilityValueV
                        (NewUnmeteredCapabilityValue capabilityID (address oldCapability)
                           (asStaticType newBorrowType))),
                None)))"

text \<open>\<open>typeID\<close> is the method \<^verbatim>\<open>ID()\<close> of a static type, defined elsewhere.\<close>

definition migratePathCapabilityValue ::
  "(StaticType \<Rightarrow> TypeID) \<Rightarrow> CapabilityValueMigration \<Rightarrow> PathCapabilityValue \<Rightarrow> StorageKey \<Rightarrow>
   MigrateResult" where
  "migratePathCapabilityValue typeID m oldCapability storageKey =
     (let reporter = Reporter m;
          capabilityAddressPath = PathCapabilityValue_AddressPath oldCapability;
          oldBorrowType = BorrowType oldCapability;
          targetPath = AddressPath_Path capabilityAddressPath;
          missing =
            (report reporter
               (MissingCapabilityID (StorageKey_Address storageKey) capabilityAddressPath),
             Inr (None, None));
          privatePublic =
            (case PrivatePublicCapabilityMapping m capabilityAddressPath of
               None \<Rightarrow> missing
             | Some (capabilityID, controllerBorrowType) \<Rightarrow>
                 newCapabilityFor reporter oldCapability storageKey capabilityID
                   (if oldBorrowType = None then Some (asStaticType controllerBorrowType)
                    else oldBorrowType))
      in case Domain targetPath of
           PathDomainPrivate \<Rightarrow> privatePublic
         | PathDomainPublic \<Rightarrow> privatePublic
         | PathDomainStorage \<Rightarrow>
             (case oldBorrowType of
                Some t \<Rightarrow>
                  (case StorageCapabilityMapping m (capabilityAddressPath, typeID t) of
                     None \<Rightarrow> missing
                   | Some capabilityID \<Rightarrow>
                       newCapabilityFor reporter oldCapability storageKey capabilityID
                         oldBorrowType)
              | None \<Rightarrow>
                  (case StorageCapabilityWithoutTypeMapping m capabilityAddressPath of
                     None \<Rightarrow> missing
                   | Some (capabilityID, controllerBorrowType) \<Rightarrow>
                       newCapabilityFor reporter oldCapability storageKey capabilityID
                         (Some (asStaticType controllerBorrowType))))
         | PathDomainUnknown \<Rightarrow>
             (reporter, Inl (UnexpectedError ''unexpected path domain'')))"

text \<open>
  \<^verbatim>\<open>Migrate\<close> ignores the storage map key, the interpreter and the position it is
  given; they are left out.
\<close>

definition Migrate ::
  "(StaticType \<Rightarrow> TypeID) \<Rightarrow> CapabilityValueMigration \<Rightarrow> StorageKey \<Rightarrow> Value \<Rightarrow> MigrateResult" where
  "Migrate typeID m storageKey v =
     (case v of
        PathCapabilityValueV pathCapabilityValue \<Rightarrow>
          migratePathCapabilityValue typeID m pathCapabilityValue storageKey
      | _ \<Rightarrow> (Reporter m, Inr (None, None)))"




subsection \<open>The claims about the migration, in the spec's words\<close>

text \<open>
  The entry of the mapping table selected by the path's domain for the capability's
  address path (and, for a typed capability in the storage domain, the id of its borrow
  type): the mapped id and, where the table records one, the controller's borrow type.
\<close>

definition mappingEntry ::
  "(StaticType \<Rightarrow> TypeID) \<Rightarrow> CapabilityValueMigration \<Rightarrow> PathCapabilityValue \<Rightarrow>
   (UInt64Value \<times> ReferenceStaticType option) option" where
  "mappingEntry typeID m c =
     (let addressPath = PathCapabilityValue_AddressPath c in
      case Domain (Path c) of
        PathDomainUnknown \<Rightarrow> None
      | PathDomainStorage \<Rightarrow>
          (case BorrowType c of
             Some t \<Rightarrow>
               map_option (\<lambda>capabilityID. (capabilityID, None))
                 (StorageCapabilityMapping m (addressPath, typeID t))
           | None \<Rightarrow>
               map_option (\<lambda>(capabilityID, b). (capabilityID, Some b))
                 (StorageCapabilityWithoutTypeMapping m addressPath))
      | _ \<Rightarrow>
          map_option (\<lambda>(capabilityID, b). (capabilityID, Some b))
            (PrivatePublicCapabilityMapping m addressPath))"

text \<open>
  The resolved borrow type: the old capability's own when present, otherwise the
  controller's.
\<close>

definition resolvedBorrowType ::
  "PathCapabilityValue \<Rightarrow> ReferenceStaticType option \<Rightarrow> StaticType option" where
  "resolvedBorrowType c controllerBorrowType =
     (case BorrowType c of
        Some t \<Rightarrow> Some t
      | None \<Rightarrow> map_option asStaticType controllerBorrowType)"

section \<open>Conformance checking\<close>

text \<open>
  Modelled from the spec: the conformance check of the semantic checker. The checker is
  outside the files at hand, which hold its tests only. For each composite and each
  interface it conforms to, every member of the interface needs either a member of the
  composite with the identical name, identical argument labels (parameter names may
  differ), equal parameter types and a return type that is a subtype, or a default in the
  interface. Nested type declarations of an interface are type requirements: the
  composite must declare a nested type with the same name and kind, which is then
  checked against the requirement. Events are exempt. The failures of one composite
  against one interface are gathered in one \<open>Conformance\<close> error. The subtype
  relation is a parameter.
\<close>

record Parameter =
  Label :: "string option"
  ParameterIdentifier :: string
  TypeAnnotation :: SemaType

text \<open>The argument label of a parameter is its explicit label or, without one, its name.\<close>

definition EffectiveArgumentLabel :: "Parameter \<Rightarrow> string" where
  "EffectiveArgumentLabel p =
     (case Label p of Some l \<Rightarrow> l | None \<Rightarrow> ParameterIdentifier p)"

record FunctionMember =
  MemberName :: string
  Parameters :: "Parameter list"
  ReturnType :: SemaType
  HasDefault :: bool

datatype CompositeKind =
  KindStructure | KindResource | KindContract | KindEnum | KindEvent | KindAttachment

record Declaration =
  DeclarationKind :: CompositeKind
  DeclarationName :: string
  Members :: "FunctionMember list"

record ContractDeclaration = Declaration +
  NestedDeclarations :: "Declaration list"

datatype CheckerError =
  ConformanceError string string "string list" "string list" "string list"

definition findMember :: "string \<Rightarrow> FunctionMember list \<Rightarrow> FunctionMember option" where
  "findMember n ms = find (\<lambda>m. MemberName m = n) ms"

text \<open>
  Modelled from the spec: a member of the composite matches a member of the interface
  when the argument labels are identical, the parameter types are equal and the return
  type is a subtype; the names of the parameters play no part.
\<close>

definition memberConforms ::
  "(SemaType \<Rightarrow> SemaType \<Rightarrow> bool) \<Rightarrow> FunctionMember \<Rightarrow> FunctionMember \<Rightarrow> bool" where
  "memberConforms sub cm im =
     (map EffectiveArgumentLabel (Parameters cm) = map EffectiveArgumentLabel (Parameters im) \<and>
      map TypeAnnotation (Parameters cm) = map TypeAnnotation (Parameters im) \<and>
      sub (ReturnType cm) (ReturnType im))"

definition missingMembers :: "FunctionMember list \<Rightarrow> FunctionMember list \<Rightarrow> string list" where
  "missingMembers cms ims =
     map MemberName
       (filter (\<lambda>im. \<not> HasDefault im \<and> findMember (MemberName im) cms = None) ims)"

definition mismatchedMembers ::
  "(SemaType \<Rightarrow> SemaType \<Rightarrow> bool) \<Rightarrow> FunctionMember list \<Rightarrow> FunctionMember list \<Rightarrow>
   string list" where
  "mismatchedMembers sub cms ims =
     map MemberName
       (filter (\<lambda>im. \<not> HasDefault im \<and>
                  (case findMember (MemberName im) cms of
                     None \<Rightarrow> False
                   | Some cm \<Rightarrow> \<not> memberConforms sub cm im)) ims)"

text \<open>
  Modelled from the spec: the members of the interface without a default that the
  composite does not declare, those it declares without matching, and the nested types
  it lacks make one \<open>Conformance\<close> error; there is no error when there are none.
\<close>

definition checkConformance ::
  "(SemaType \<Rightarrow> SemaType \<Rightarrow> bool) \<Rightarrow> string \<Rightarrow> FunctionMember list \<Rightarrow> string \<Rightarrow>
   FunctionMember list \<Rightarrow> string list \<Rightarrow> CheckerError list" where
  "checkConformance sub cname cms iname ims missingTypes =
     (let missing = missingMembers cms ims;
          mismatched = mismatchedMembers sub cms ims
      in if missing = [] \<and> mismatched = [] \<and> missingTypes = [] then []
         else [ConformanceError cname iname missing mismatched missingTypes])"

text \<open>Modelled from the spec: a composite declaration against an interface declaration.\<close>

definition checkDeclarationConformance ::
  "(SemaType \<Rightarrow> SemaType \<Rightarrow> bool) \<Rightarrow> Declaration \<Rightarrow> Declaration \<Rightarrow> CheckerError list" where
  "checkDeclarationConformance sub c i =
     checkConformance sub (DeclarationName c) (Members c) (DeclarationName i) (Members i) []"

definition findNested :: "Declaration \<Rightarrow> Declaration list \<Rightarrow> Declaration option" where
  "findNested r ns =
     find (\<lambda>n. DeclarationName n = DeclarationName r \<and> DeclarationKind n = DeclarationKind r) ns"

definition typeRequirements :: "Declaration list \<Rightarrow> Declaration list" where
  "typeRequirements ns = filter (\<lambda>r. DeclarationKind r \<noteq> KindEvent) ns"

definition missingNestedTypes :: "Declaration list \<Rightarrow> Declaration list \<Rightarrow> string list" where
  "missingNestedTypes cns ins =
     map DeclarationName (filter (\<lambda>r. findNested r cns = None) (typeRequirements ins))"

text \<open>
  Modelled from the spec: a contract against a contract interface. The nested
  declarations of the interface other than events are type requirements; each one the
  contract declares is checked against its requirement in turn.
\<close>

definition checkContractConformance ::
  "(SemaType \<Rightarrow> SemaType \<Rightarrow> bool) \<Rightarrow> ContractDeclaration \<Rightarrow> ContractDeclaration \<Rightarrow>
   CheckerError list" where
  "checkContractConformance sub c i =
     checkConformance sub (DeclarationName c) (Members c) (DeclarationName i) (Members i)
       (missingNestedTypes (NestedDeclarations c) (NestedDeclarations i)) @
     concat (map (\<lambda>r. case findNested r (NestedDeclarations c) of
                         None \<Rightarrow> []
                       | Some n \<Rightarrow>
                           checkConformance sub (DeclarationName n) (Members n)
                             (DeclarationName r) (Members r) [])
              (typeRequirements (NestedDeclarations i)))"

text \<open>
  Modelled from the spec: the cases of subtyping the scenarios need. A type is a subtype
  of itself; the never type is the bottom; a composite is a subtype of an intersection
  of interfaces it conforms to; a type is a subtype of its optional.
\<close>

fun IsSubType :: "SemaType \<Rightarrow> SemaType \<Rightarrow> bool" where
  "IsSubType SemaNever super = True"
| "IsSubType (SemaComposite n conformances) (SemaIntersection interfaces) =
     list_all (\<lambda>i. i \<in> set conformances) interfaces"
| "IsSubType sub (SemaOptional inner) = (sub = SemaOptional inner \<or> IsSubType sub inner)"
| "IsSubType sub super = (sub = super)"

section \<open>Example values\<close>

definition capabilityExample :: PathCapabilityValue where
  "capabilityExample =
     \<lparr>BorrowType = Some (ReferenceStaticTypeT UnauthorizedAccess (CompositeStaticType ''Foo'')),
      Path = \<lparr>Domain = PathDomainPublic, Identifier = ''x''\<rparr>,
      address = 1\<rparr>"

definition untypedCapabilityExample :: PathCapabilityValue where
  "untypedCapabilityExample = capabilityExample\<lparr>BorrowType := None\<rparr>"

definition boolCapabilityExample :: PathCapabilityValue where
  "boolCapabilityExample =
     capabilityExample\<lparr>BorrowType := Some (PrimitiveStaticTypeT PrimitiveStaticTypeBool)\<rparr>"

definition fooReference :: ReferenceStaticType where
  "fooReference =
     \<lparr>Authorization = UnauthorizedAccess, ReferencedType = CompositeStaticType ''Foo''\<rparr>"

definition emptyMigration :: CapabilityValueMigration where
  "emptyMigration =
     \<lparr>PrivatePublicCapabilityMapping = (\<lambda>_. None),
      StorageCapabilityMapping = (\<lambda>_. None),
      StorageCapabilityWithoutTypeMapping = (\<lambda>_. None),
      Reporter = Some []\<rparr>"

definition mappedMigration :: CapabilityValueMigration where
  "mappedMigration =
     emptyMigration\<lparr>PrivatePublicCapabilityMapping :=
       (\<lambda>addressPath.
          if addressPath =
               \<lparr>Address = 1,
                AddressPath_Path = \<lparr>Domain = PathDomainPublic, Identifier = ''x''\<rparr>\<rparr>
          then Some (42, fooReference) else None)\<rparr>"

definition exampleKey :: StorageKey where
  "exampleKey = \<lparr>Key = ''storage'', StorageKey_Address = 1\<rparr>"

definition exampleTypeID :: "StaticType \<Rightarrow> TypeID" where
  "exampleTypeID t = (case t of CompositeStaticType n \<Rightarrow> n | _ \<Rightarrow> ''T'')"




definition intType :: SemaType where "intType = SemaPrimitive ''Int''"
definition stringType :: SemaType where "stringType = SemaPrimitive ''String''"
definition voidType :: SemaType where "voidType = SemaPrimitive ''Void''"
definition typeR :: SemaType where "typeR = SemaComposite ''R'' [''RI'']"
definition typeRI :: SemaType where "typeRI = SemaIntersection [''RI'']"

definition functionMember :: "string \<Rightarrow> Parameter list \<Rightarrow> SemaType \<Rightarrow> FunctionMember" where
  "functionMember n ps r =
     \<lparr>MemberName = n, Parameters = ps, ReturnType = r, HasDefault = False\<rparr>"

definition parameter :: "string option \<Rightarrow> string \<Rightarrow> SemaType \<Rightarrow> Parameter" where
  "parameter l n t = \<lparr>Label = l, ParameterIdentifier = n, TypeAnnotation = t\<rparr>"

definition structDecl :: "string \<Rightarrow> FunctionMember list \<Rightarrow> Declaration" where
  "structDecl n ms = \<lparr>DeclarationKind = KindStructure, DeclarationName = n, Members = ms\<rparr>"

definition eventDecl :: "string \<Rightarrow> Parameter list \<Rightarrow> Declaration" where
  "eventDecl n ps =
     \<lparr>DeclarationKind = KindEvent, DeclarationName = n,
      Members = [functionMember ''init'' ps voidType]\<rparr>"

definition contractDecl :: "string \<Rightarrow> Declaration list \<Rightarrow> ContractDeclaration" where
  "contractDecl n ns =
     \<lparr>DeclarationKind = KindContract, DeclarationName = n, Members = [],
      NestedDeclarations = ns\<rparr>"

text \<open>
  The shape of the checker's type requirement tests: a contract interface \<open>CI\<close> that
  declares a struct \<open>S\<close> with the given members, and a contract \<open>C\<close> conforming to it
  that declares a struct \<open>S\<close> with its own.
\<close>

definition typeRequirementScenario ::
  "FunctionMember list \<Rightarrow> FunctionMember list \<Rightarrow> CheckerError list" where
  "typeRequirementScenario interfaceMembers conformanceMembers =
     checkContractConformance IsSubType
       (contractDecl ''C'' [structDecl ''S'' conformanceMembers])
       (contractDecl ''CI'' [structDecl ''S'' interfaceMembers])"

section \<open>Properties of comments\<close>

lemma HasPrefix_iff_prefix: "HasPrefix s p \<longleftrightarrow> prefix p s"
proof
  assume "HasPrefix s p"
  then have "s = p @ drop (length p) s"
    by (metis HasPrefix_def append_take_drop_id)
  then show "prefix p s"
    by (metis prefixI)
next
  assume "prefix p s"
  then obtain r where "s = p @ r"
    by (auto elim: prefixE)
  then show "HasPrefix s p"
    by (simp add: HasPrefix_def)
qed

text \<open>
  Claim C9. For every comment, \<open>Multiline\<close> holds exactly when the source starts with
  the two bytes of \<^verbatim>\<open>/*\<close>, and \<open>Doc\<close> holds exactly when either the comment is
  multiline and its source starts with \<^verbatim>\<open>/**\<close>, or it is not multiline and its
  source starts with \<^verbatim>\<open>///\<close>.
\<close>

theorem comment_Multiline_Doc:
  "(Multiline c \<longleftrightarrow> prefix (bytes ''/*'') (source c)) \<and>
   (Doc c \<longleftrightarrow> (Multiline c \<and> prefix (bytes ''/**'') (source c)) \<or>
              (\<not> Multiline c \<and> prefix (bytes ''///'') (source c)))"
  by (simp add: Multiline_def Doc_def HasPrefix_iff_prefix
      blockCommentStringPrefix_def blockCommentDocStringPrefix_def
      lineCommentDocStringPrefix_def)

theorem comment_Multiline_Doc_witness:
  "Multiline \<lparr>source = bytes ''/** doc */''\<rparr> \<and> Doc \<lparr>source = bytes ''/** doc */''\<rparr> \<and>
   \<not> Multiline \<lparr>source = bytes ''/// doc''\<rparr> \<and> Doc \<lparr>source = bytes ''/// doc''\<rparr> \<and>
   Multiline \<lparr>source = bytes ''/* x */''\<rparr> \<and> \<not> Doc \<lparr>source = bytes ''/* x */''\<rparr> \<and>
   \<not> Multiline \<lparr>source = bytes ''// x''\<rparr> \<and> \<not> Doc \<lparr>source = bytes ''// x''\<rparr>"
  using comment_Multiline_Doc [of "\<lparr>source = bytes ''/** doc */''\<rparr>"]
    comment_Multiline_Doc [of "\<lparr>source = bytes ''/// doc''\<rparr>"]
    comment_Multiline_Doc [of "\<lparr>source = bytes ''/* x */''\<rparr>"]
    comment_Multiline_Doc [of "\<lparr>source = bytes ''// x''\<rparr>"]
  by (simp add: bytes_def)

section \<open>Properties of the deprecated path capability\<close>



text \<open>
  Claim C7. Encoding a deprecated path capability value appends to the stream the tag
  head \<open>0xd8\<close> with the tag number of path capabilities, the head of an array of
  \<open>encodedPathCapabilityValueLength\<close> = 3 elements, and then the encodings of the
  address, of the path and of the borrow type, in this order; a missing borrow type is
  encoded as the CBOR nil.
\<close>

theorem pathCapability_Encode:
  assumes "encAddress (address v) = (a, None)"
    and "encPath (Path v) = (p, None)"
  shows "(BorrowType v = None \<longrightarrow>
            Encode tag encAddress encPath encStaticType v e =
              (e @ [0xd8, tag, 0x80 + of_nat encodedPathCapabilityValueLength] @ a @ p @ [0xf6],
               None)) \<and>
         (\<forall>t b. BorrowType v = Some t \<and> encStaticType t = (b, None) \<longrightarrow>
            Encode tag encAddress encPath encStaticType v e =
              (e @ [0xd8, tag, 0x80 + of_nat encodedPathCapabilityValueLength] @ a @ p @ b,
               None))"
  using assms
  by (simp add: Encode_def EncodeRawBytes_def EncodeNil_def encodeWith_def
      encodedPathCapabilityValueLength_def)

theorem pathCapability_Encode_witness:
  "Encode 0xc0 (\<lambda>_. ([1, 2], None)) (\<lambda>_. ([3], None)) (\<lambda>_. ([4, 5], None))
     untypedCapabilityExample [] = ([0xd8, 0xc0, 0x83, 1, 2, 3, 0xf6], None) \<and>
   Encode 0xc0 (\<lambda>_. ([1, 2], None)) (\<lambda>_. ([3], None)) (\<lambda>_. ([4, 5], None))
     capabilityExample [] = ([0xd8, 0xc0, 0x83, 1, 2, 3, 4, 5], None)"
  using pathCapability_Encode
    [where encAddress = "\<lambda>_. ([1, 2], None)" and v = untypedCapabilityExample
       and a = "[1, 2]" and encPath = "\<lambda>_. ([3], None)" and p = "[3]" and tag = "0xc0"
       and encStaticType = "\<lambda>_. ([4, 5], None)" and e = "[]"]
    pathCapability_Encode
    [where encAddress = "\<lambda>_. ([1, 2], None)" and v = capabilityExample
       and a = "[1, 2]" and encPath = "\<lambda>_. ([3], None)" and p = "[3]" and tag = "0xc0"
       and encStaticType = "\<lambda>_. ([4, 5], None)" and e = "[]"]
  by (simp add: untypedCapabilityExample_def capabilityExample_def
      encodedPathCapabilityValueLength_def)

text \<open>
  Claim C10. A deprecated path capability value is equal to another value exactly when
  the other value is a path capability value with the same borrow type (both absent, or
  both present and equal), the same address and the same path; it is never equal to an
  id capability value.
\<close>

theorem pathCapability_Equal:
  "(Equal v other \<longleftrightarrow>
      (\<exists>otherCapability. other = PathCapabilityValueV otherCapability \<and>
         BorrowType otherCapability = BorrowType v \<and>
         address otherCapability = address v \<and>
         Path otherCapability = Path v)) \<and>
   \<not> Equal v (IDCapabilityValueV c)"
  by (cases other)
    (auto simp: Equal_def StaticType_Equal_def AddressValue_Equal_def PathValue_Equal_def
      split: option.splits)

theorem pathCapability_Equal_witness:
  "Equal capabilityExample (PathCapabilityValueV capabilityExample) \<and>
   \<not> Equal capabilityExample (PathCapabilityValueV untypedCapabilityExample) \<and>
   \<not> Equal untypedCapabilityExample (PathCapabilityValueV capabilityExample) \<and>
   \<not> Equal capabilityExample
       (IDCapabilityValueV (NewUnmeteredCapabilityValue 42 1 (asStaticType fooReference))) \<and>
   \<not> Equal capabilityExample (AddressValueV 1)"
  using pathCapability_Equal
    [where v = capabilityExample and other = "PathCapabilityValueV capabilityExample"]
    pathCapability_Equal
    [where v = capabilityExample and other = "PathCapabilityValueV untypedCapabilityExample"]
    pathCapability_Equal
    [where v = untypedCapabilityExample and other = "PathCapabilityValueV capabilityExample"]
    pathCapability_Equal
    [where v = capabilityExample and other = "AddressValueV 1"
       and c = "NewUnmeteredCapabilityValue 42 1 (asStaticType fooReference)"]
  by (simp add: untypedCapabilityExample_def capabilityExample_def)

section \<open>Properties of the capability migration\<close>


lemma migrate_entry:
  assumes "mappingEntry typeID m c = Some (capabilityID, controllerBorrowType)"
  shows "migratePathCapabilityValue typeID m c k =
           newCapabilityFor (Reporter m) c k capabilityID
             (resolvedBorrowType c controllerBorrowType)"
  using assms
  by (auto simp: migratePathCapabilityValue_def mappingEntry_def Let_def resolvedBorrowType_def
      PathCapabilityValue_AddressPath_def
      split: PathDomain.splits option.splits)

lemma assertReferenceStaticType_None:
  "assertReferenceStaticType b = None \<longleftrightarrow> (\<forall>a t. b \<noteq> Some (ReferenceStaticTypeT a t))"
  by (cases b rule: assertReferenceStaticType.cases) simp_all

lemma migrate_replacement_is_id_capability:
  assumes "migratePathCapabilityValue typeID m c k = (r, Inr (Some v', e))"
  shows "\<exists>ic. v' = IDCapabilityValueV ic"
  using assms
  by (auto simp: migratePathCapabilityValue_def newCapabilityFor_def Let_def
      split: PathDomain.splits option.splits if_splits)




text \<open>
  Claim C3. \<open>Migrate\<close> returns no replacement and no error, and reports nothing, for
  every value that is not a deprecated path capability value. Every replacement it
  returns is an id capability value, so running any capability migration on that
  replacement again returns no replacement: a second run leaves every migrated value
  unchanged.
\<close>

theorem Migrate_idempotent:
  "((\<forall>c. v \<noteq> PathCapabilityValueV c) \<longrightarrow>
      Migrate typeID m k v = (Reporter m, Inr (None, None))) \<and>
   (\<forall>r v' e. Migrate typeID m k v = (r, Inr (Some v', e)) \<longrightarrow>
      (\<exists>ic. v' = IDCapabilityValueV ic) \<and>
      Migrate typeID' m' k' v' = (Reporter m', Inr (None, None)))"
proof (intro conjI allI impI)
  assume "\<forall>c. v \<noteq> PathCapabilityValueV c"
  then show "Migrate typeID m k v = (Reporter m, Inr (None, None))"
    by (cases v) (simp_all add: Migrate_def)
next
  fix r v' e
  assume run: "Migrate typeID m k v = (r, Inr (Some v', e))"
  show idcap: "\<exists>ic. v' = IDCapabilityValueV ic"
  proof (cases v)
    case (PathCapabilityValueV c)
    with run show ?thesis
      by (auto simp: Migrate_def dest: migrate_replacement_is_id_capability)
  qed (use run in \<open>simp_all add: Migrate_def\<close>)
  then show "Migrate typeID' m' k' v' = (Reporter m', Inr (None, None))"
    by (auto simp: Migrate_def)
qed

theorem Migrate_idempotent_witness:
  "Migrate exampleTypeID mappedMigration exampleKey (PathCapabilityValueV capabilityExample) =
     (Some [MigratedPathCapability 1 (PathCapabilityValue_AddressPath capabilityExample)
              fooReference 42],
      Inr (Some (IDCapabilityValueV (NewUnmeteredCapabilityValue 42 1 (asStaticType fooReference))),
           None)) \<and>
   Migrate exampleTypeID mappedMigration exampleKey
     (IDCapabilityValueV (NewUnmeteredCapabilityValue 42 1 (asStaticType fooReference))) =
     (Some [], Inr (None, None)) \<and>
   Migrate exampleTypeID mappedMigration exampleKey (SomeValue (BoolValue True)) =
     (Some [], Inr (None, None))"
  using Migrate_idempotent
    [where v = "PathCapabilityValueV capabilityExample" and typeID = exampleTypeID
       and m = mappedMigration and k = exampleKey and typeID' = exampleTypeID
       and m' = mappedMigration and k' = exampleKey]
    Migrate_idempotent
    [where v = "SomeValue (BoolValue True)" and typeID = exampleTypeID
       and m = mappedMigration and k = exampleKey]
  by (simp add: Migrate_def migratePathCapabilityValue_def newCapabilityFor_def report_def
      mappedMigration_def emptyMigration_def capabilityExample_def exampleKey_def
      fooReference_def PathCapabilityValue_AddressPath_def NewUnmeteredCapabilityValue_def
      asStaticType_def Let_def)

text \<open>
  Claim C5. When the mapping has an entry for a path capability and the resolved borrow
  type (the old capability's own, or the controller's when adopted) is not a reference
  static type, the migration panics with an unexpected error: the reporter receives no
  call and no value is returned.
\<close>

theorem migrate_nonreference_panics:
  assumes "mappingEntry typeID m c = Some (capabilityID, controllerBorrowType)"
    and "\<forall>a t. resolvedBorrowType c controllerBorrowType \<noteq> Some (ReferenceStaticTypeT a t)"
  shows "migratePathCapabilityValue typeID m c k =
           (Reporter m, Inl (UnexpectedError ''unexpected non-reference borrow type''))"
proof -
  have "assertReferenceStaticType (resolvedBorrowType c controllerBorrowType) = None"
    using assms(2) by (simp add: assertReferenceStaticType_None)
  then show ?thesis
    using assms(1) by (simp add: migrate_entry newCapabilityFor_def)
qed

theorem migrate_nonreference_panics_witness:
  "mappingEntry exampleTypeID mappedMigration boolCapabilityExample =
     Some (42, Some fooReference) \<and>
   resolvedBorrowType boolCapabilityExample (Some fooReference) =
     Some (PrimitiveStaticTypeT PrimitiveStaticTypeBool) \<and>
   migratePathCapabilityValue exampleTypeID mappedMigration boolCapabilityExample exampleKey =
     (Reporter mappedMigration, Inl (UnexpectedError ''unexpected non-reference borrow type''))"
  using migrate_nonreference_panics
    [where typeID = exampleTypeID and m = mappedMigration and c = boolCapabilityExample
       and capabilityID = 42 and controllerBorrowType = "Some fooReference" and k = exampleKey]
  by (simp add: mappingEntry_def resolvedBorrowType_def mappedMigration_def emptyMigration_def
      boolCapabilityExample_def capabilityExample_def PathCapabilityValue_AddressPath_def)




section \<open>Properties of conformance checking\<close>

lemmas scenario_defs =
  typeRequirementScenario_def contractDecl_def structDecl_def functionMember_def parameter_def
  checkContractConformance_def checkConformance_def missingNestedTypes_def typeRequirements_def
  findNested_def missingMembers_def mismatchedMembers_def findMember_def memberConforms_def
  EffectiveArgumentLabel_def intType_def stringType_def voidType_def

text \<open>The model agrees with the type requirement tests of the checker.\<close>

lemma typeRequirement_scenarios:
  "typeRequirementScenario [] [] = []"
  "typeRequirementScenario [] [functionMember ''foo'' [] voidType] = []"
  "typeRequirementScenario [functionMember ''foo'' [] voidType] [] =
     [ConformanceError ''S'' ''S'' [''foo''] [] []]"
  "typeRequirementScenario
     [functionMember ''foo'' [parameter None ''x'' intType] voidType]
     [functionMember ''foo'' [parameter None ''y'' intType] voidType] =
     [ConformanceError ''S'' ''S'' [] [''foo''] []]"
  "typeRequirementScenario
     [functionMember ''foo'' [parameter None ''x'' intType] voidType]
     [functionMember ''foo'' [parameter None ''x'' stringType] voidType] =
     [ConformanceError ''S'' ''S'' [] [''foo''] []]"
  "typeRequirementScenario
     [functionMember ''foo'' [parameter (Some ''x'') ''y'' stringType] voidType]
     [functionMember ''foo'' [parameter (Some ''x'') ''z'' stringType] voidType] = []"
  "typeRequirementScenario
     [functionMember ''foo'' [parameter None ''bar'' (SemaIntersection [''I''])] voidType]
     [functionMember ''foo'' [parameter None ''bar'' (SemaComposite ''T'' [''I''])] voidType] =
     [ConformanceError ''S'' ''S'' [] [''foo''] []]"
  "typeRequirementScenario
     [functionMember ''foo'' [parameter None ''bar'' (SemaComposite ''X.Bar'' [])] voidType]
     [functionMember ''foo'' [parameter None ''bar'' (SemaComposite ''X.Bar'' [])] voidType] = []"
  "typeRequirementScenario
     [functionMember ''foo'' [parameter None ''bar'' (SemaComposite ''X.Bar'' [])] voidType]
     [functionMember ''foo'' [parameter None ''bar'' (SemaComposite ''Y.Bar'' [])] voidType] =
     [ConformanceError ''S'' ''S'' [] [''foo''] []]"
  by (simp_all add: scenario_defs)

text \<open>A missing member and a missing nested type are gathered in one error.\<close>

lemma missing_definitions_scenario:
  "checkContractConformance IsSubType
     (contractDecl ''C'' [])
     ((contractDecl ''I'' [structDecl ''S'' []])\<lparr>Members := [functionMember ''foo'' [] voidType]\<rparr>) =
     [ConformanceError ''C'' ''I'' [''foo''] [] [''S'']]"
  by (simp add: scenario_defs)

text \<open>
  Claim C4. Let an interface declare one member, without a default, and let the
  composite declare a member of the same name with the same argument labels. If the
  parameter types are the same and the return type is a subtype of the interface's, the
  composite is accepted, whatever the names of its parameters. If some parameter type is
  a strict subtype or a strict supertype of the interface's, or if the return type is a
  strict supertype of the interface's, the check yields exactly one \<open>Conformance\<close>
  error.
\<close>

theorem conformance_member_rules:
  assumes "Members i = [im]"
    and "\<not> HasDefault im"
    and "findMember (MemberName im) (Members c) = Some cm"
    and "map EffectiveArgumentLabel (Parameters cm) = map EffectiveArgumentLabel (Parameters im)"
  shows "(map TypeAnnotation (Parameters cm) = map TypeAnnotation (Parameters im) \<and>
          sub (ReturnType cm) (ReturnType im) \<longrightarrow>
            checkDeclarationConformance sub c i = []) \<and>
         ((\<exists>k < length (Parameters im).
             (sub (TypeAnnotation (Parameters cm ! k)) (TypeAnnotation (Parameters im ! k)) \<and>
              \<not> sub (TypeAnnotation (Parameters im ! k)) (TypeAnnotation (Parameters cm ! k))) \<or>
             (sub (TypeAnnotation (Parameters im ! k)) (TypeAnnotation (Parameters cm ! k)) \<and>
              \<not> sub (TypeAnnotation (Parameters cm ! k)) (TypeAnnotation (Parameters im ! k)))) \<longrightarrow>
            checkDeclarationConformance sub c i =
              [ConformanceError (DeclarationName c) (DeclarationName i) [] [MemberName im] []]) \<and>
         (sub (ReturnType im) (ReturnType cm) \<and> \<not> sub (ReturnType cm) (ReturnType im) \<longrightarrow>
            checkDeclarationConformance sub c i =
              [ConformanceError (DeclarationName c) (DeclarationName i) [] [MemberName im] []])"
proof -
  have len: "length (Parameters cm) = length (Parameters im)"
    using assms(4) by (metis length_map)
  have accept: "checkDeclarationConformance sub c i = []" if "memberConforms sub cm im"
    using that assms(1-3)
    by (simp add: checkDeclarationConformance_def checkConformance_def missingMembers_def
        mismatchedMembers_def)
  have reject: "checkDeclarationConformance sub c i =
      [ConformanceError (DeclarationName c) (DeclarationName i) [] [MemberName im] []]"
    if "\<not> memberConforms sub cm im"
    using that assms(1-3)
    by (simp add: checkDeclarationConformance_def checkConformance_def missingMembers_def
        mismatchedMembers_def)
  have differ: "\<not> memberConforms sub cm im"
    if "k < length (Parameters im)"
      and "TypeAnnotation (Parameters cm ! k) \<noteq> TypeAnnotation (Parameters im ! k)" for k
  proof
    assume "memberConforms sub cm im"
    then have "map TypeAnnotation (Parameters cm) ! k = map TypeAnnotation (Parameters im) ! k"
      by (simp add: memberConforms_def)
    with that len show False by simp
  qed
  show ?thesis
  proof (intro conjI impI)
    assume "map TypeAnnotation (Parameters cm) = map TypeAnnotation (Parameters im) \<and>
            sub (ReturnType cm) (ReturnType im)"
    with assms(4) show "checkDeclarationConformance sub c i = []"
      by (intro accept) (simp add: memberConforms_def)
  next
    assume "\<exists>k < length (Parameters im).
             (sub (TypeAnnotation (Parameters cm ! k)) (TypeAnnotation (Parameters im ! k)) \<and>
              \<not> sub (TypeAnnotation (Parameters im ! k)) (TypeAnnotation (Parameters cm ! k))) \<or>
             (sub (TypeAnnotation (Parameters im ! k)) (TypeAnnotation (Parameters cm ! k)) \<and>
              \<not> sub (TypeAnnotation (Parameters cm ! k)) (TypeAnnotation (Parameters im ! k)))"
    then obtain k where k: "k < length (Parameters im)"
      and strict:
        "(sub (TypeAnnotation (Parameters cm ! k)) (TypeAnnotation (Parameters im ! k)) \<and>
          \<not> sub (TypeAnnotation (Parameters im ! k)) (TypeAnnotation (Parameters cm ! k))) \<or>
         (sub (TypeAnnotation (Parameters im ! k)) (TypeAnnotation (Parameters cm ! k)) \<and>
          \<not> sub (TypeAnnotation (Parameters cm ! k)) (TypeAnnotation (Parameters im ! k)))"
      by (elim exE conjE)
    have "TypeAnnotation (Parameters cm ! k) \<noteq> TypeAnnotation (Parameters im ! k)"
    proof
      assume "TypeAnnotation (Parameters cm ! k) = TypeAnnotation (Parameters im ! k)"
      with strict show False by simp
    qed
    with k show "checkDeclarationConformance sub c i =
        [ConformanceError (DeclarationName c) (DeclarationName i) [] [MemberName im] []]"
      by (intro reject differ)
  next
    assume "sub (ReturnType im) (ReturnType cm) \<and> \<not> sub (ReturnType cm) (ReturnType im)"
    then show "checkDeclarationConformance sub c i =
        [ConformanceError (DeclarationName c) (DeclarationName i) [] [MemberName im] []]"
      by (intro reject) (simp add: memberConforms_def)
  qed
qed

theorem conformance_member_rules_witness:
  "checkDeclarationConformance IsSubType
     (structDecl ''S'' [functionMember ''foo'' [parameter (Some ''x'') ''z'' stringType] voidType])
     (structDecl ''SI'' [functionMember ''foo'' [parameter (Some ''x'') ''y'' stringType] voidType])
     = [] \<and>
   checkDeclarationConformance IsSubType
     (structDecl ''S'' [functionMember ''get'' [] typeR])
     (structDecl ''SI'' [functionMember ''get'' [] typeRI]) = [] \<and>
   checkDeclarationConformance IsSubType
     (structDecl ''S'' [functionMember ''get'' [] typeRI])
     (structDecl ''SI'' [functionMember ''get'' [] typeR]) =
     [ConformanceError ''S'' ''SI'' [] [''get''] []] \<and>
   checkDeclarationConformance IsSubType
     (structDecl ''S'' [functionMember ''set'' [parameter None ''r'' typeR] voidType])
     (structDecl ''SI'' [functionMember ''set'' [parameter None ''r'' typeRI] voidType]) =
     [ConformanceError ''S'' ''SI'' [] [''set''] []] \<and>
   checkDeclarationConformance IsSubType
     (structDecl ''S'' [functionMember ''set'' [parameter None ''r'' typeRI] voidType])
     (structDecl ''SI'' [functionMember ''set'' [parameter None ''r'' typeR] voidType]) =
     [ConformanceError ''S'' ''SI'' [] [''set''] []]"
  using
    conformance_member_rules
      [of "structDecl ''SI'' [functionMember ''foo'' [parameter (Some ''x'') ''y'' stringType] voidType]"
          "functionMember ''foo'' [parameter (Some ''x'') ''y'' stringType] voidType"
          "structDecl ''S'' [functionMember ''foo'' [parameter (Some ''x'') ''z'' stringType] voidType]"
          "functionMember ''foo'' [parameter (Some ''x'') ''z'' stringType] voidType"
          IsSubType]
    conformance_member_rules
      [of "structDecl ''SI'' [functionMember ''get'' [] typeRI]"
          "functionMember ''get'' [] typeRI"
          "structDecl ''S'' [functionMember ''get'' [] typeR]"
          "functionMember ''get'' [] typeR"
          IsSubType]
    conformance_member_rules
      [of "structDecl ''SI'' [functionMember ''get'' [] typeR]"
          "functionMember ''get'' [] typeR"
          "structDecl ''S'' [functionMember ''get'' [] typeRI]"
          "functionMember ''get'' [] typeRI"
          IsSubType]
    conformance_member_rules
      [of "structDecl ''SI'' [functionMember ''set'' [parameter None ''r'' typeRI] voidType]"
          "functionMember ''set'' [parameter None ''r'' typeRI] voidType"
          "structDecl ''S'' [functionMember ''set'' [parameter None ''r'' typeR] voidType]"
          "functionMember ''set'' [parameter None ''r'' typeR] voidType"
          IsSubType]
    conformance_member_rules
      [of "structDecl ''SI'' [functionMember ''set'' [parameter None ''r'' typeR] voidType]"
          "functionMember ''set'' [parameter None ''r'' typeR] voidType"
          "structDecl ''S'' [functionMember ''set'' [parameter None ''r'' typeRI] voidType]"
          "functionMember ''set'' [parameter None ''r'' typeRI] voidType"
          IsSubType]
  by (simp add: structDecl_def functionMember_def parameter_def findMember_def
      EffectiveArgumentLabel_def typeR_def typeRI_def voidType_def stringType_def)

lemma typeRequirements_idem: "typeRequirements (typeRequirements ns) = typeRequirements ns"
  by (simp add: typeRequirements_def)

text \<open>
  Claim C8. Events are exempt from conformance checking: the events a contract interface
  declares play no part in the check of a contract against it, so a contract that
  declares an event of the same name with other parameters, against an interface that
  declares nothing but events, checks with no errors.
\<close>

theorem events_exempt_from_conformance:
  "checkContractConformance sub c i =
     checkContractConformance sub c
       (i\<lparr>NestedDeclarations := typeRequirements (NestedDeclarations i)\<rparr>) \<and>
   (Members i = [] \<and> list_all (\<lambda>r. DeclarationKind r = KindEvent) (NestedDeclarations i) \<longrightarrow>
      checkContractConformance sub c i = [])"
proof -
  have "typeRequirements ns = []" if "list_all (\<lambda>r. DeclarationKind r = KindEvent) ns" for ns
    using that by (induction ns) (simp_all add: typeRequirements_def)
  then show ?thesis
    by (auto simp: checkContractConformance_def missingNestedTypes_def typeRequirements_idem
        checkConformance_def missingMembers_def mismatchedMembers_def)
qed

theorem events_exempt_from_conformance_witness:
  "checkContractConformance IsSubType
     (contractDecl ''C'' [eventDecl ''E'' [parameter None ''b'' stringType]])
     (contractDecl ''CI'' [eventDecl ''E'' [parameter None ''a'' intType]]) = [] \<and>
   checkContractConformance IsSubType
     (contractDecl ''C'' [structDecl ''E'' [functionMember ''init'' [parameter None ''b'' stringType] voidType]])
     (contractDecl ''CI'' [structDecl ''E'' [functionMember ''init'' [parameter None ''a'' intType] voidType]]) =
     [ConformanceError ''E'' ''E'' [] [''init''] []]"
  using events_exempt_from_conformance
    [of IsSubType "contractDecl ''C'' [eventDecl ''E'' [parameter None ''b'' stringType]]"
        "contractDecl ''CI'' [eventDecl ''E'' [parameter None ''a'' intType]]"]
  by (simp add: contractDecl_def eventDecl_def structDecl_def parameter_def functionMember_def
      checkContractConformance_def checkConformance_def missingNestedTypes_def
      typeRequirements_def findNested_def missingMembers_def mismatchedMembers_def
      findMember_def memberConforms_def EffectiveArgumentLabel_def
      intType_def stringType_def voidType_def)

end
